theory Spec2Isabelle
  imports Complex_Main
begin

section \<open>Data model (src/types/types.ts)\<close>

text \<open>
  A TypeScript \<open>number\<close> is modelled as a real: sums, differences and quotients are the
  exact ones. The counters only ever hold the results of \<open>++\<close> from 0, which an IEEE
  double represents exactly below \<open>2^53\<close>; for durations and quotients the model leaves
  the rounding of the double arithmetic out, and it has no NaN and no infinity.
  Every division of the source is guarded by a test of the divisor against 0.

  A \<open>Date\<close> is the number of milliseconds since the epoch.
  An \<open>Array<ErrorLog>\<close> is an object: a value of that type is a reference into a store of
  arrays, so that two holders of the same reference see each other's updates.
\<close>

type_synonym number = real
type_synonym Date = int
type_synonym ref = nat

record ErrorLog =
  timestamp :: Date
  "method" :: string
  path :: string
  error :: string

record Stats =
  requestCount :: number
  errorCount :: number
  totalLatency :: number
  dbQueryCount :: number
  dbErrorCount :: number
  dbTotalLatency :: number
  lastErrors :: ref

text \<open>The three anonymous object types nested in \<open>MonitoringResponse\<close>.\<close>

record RequestsGroup =
  total :: number
  errors :: number
  successRate :: number
  avgLatencyMs :: number

record DatabaseGroup =
  totalQueries :: number
  errors :: number
  avgLatencyMs :: number

record SystemGroup =
  cpuUsage :: number
  memoryUsage :: number
  networkRecv :: number

text \<open>The field \<open>lastErrors?\<close> is optional: \<open>None\<close> is the absent field.\<close>

record MonitoringResponse =
  requests :: RequestsGroup
  database :: DatabaseGroup
  system :: SystemGroup
  lastErrors :: "ref option"

text \<open>The part of a JavaScript \<open>Error\<close> object that the program reads.\<close>

record Error =
  message :: string

section \<open>Program state\<close>

text \<open>
  The world outside the \<open>Vision\<close> object: the store of arrays, the next reference the
  allocator hands out, and the lines written with \<open>console.error\<close>.
  The state of the program adds the private field \<open>this.stats\<close> of the one \<open>Vision\<close>
  object. The \<open>Stats\<close> object itself never leaves the class, so it is held by value;
  the array it refers to does leave it, so it is held by reference.
\<close>

record world =
  arrays :: "ref \<Rightarrow> ErrorLog list"
  nextRef :: ref
  console :: "string list"

record state = world +
  stats :: Stats

definition emptyWorld :: world where
  "emptyWorld = \<lparr>arrays = (\<lambda>_. []), nextRef = 0, console = []\<rparr>"

text \<open>\<open>Array.prototype.length\<close>, \<open>shift\<close> (which leaves an empty array as it is) and \<open>push\<close>.\<close>

definition array_length :: "ref \<Rightarrow> state \<Rightarrow> nat" where
  "array_length r s = length (arrays s r)"

definition array_shift :: "ref \<Rightarrow> state \<Rightarrow> state" where
  "array_shift r s =
     s\<lparr>arrays := (arrays s)(r := (case arrays s r of [] \<Rightarrow> [] | _ # xs \<Rightarrow> xs))\<rparr>"

definition array_push :: "ref \<Rightarrow> ErrorLog \<Rightarrow> state \<Rightarrow> state" where
  "array_push r x s = s\<lparr>arrays := (arrays s)(r := arrays s r @ [x])\<rparr>"

text \<open>The array that \<open>this.stats.lastErrors\<close> refers to, read from the store.\<close>

definition errorLog :: "state \<Rightarrow> ErrorLog list" where
  "errorLog s = arrays s (Stats.lastErrors (stats s))"

section \<open>The class Vision (src/main.ts)\<close>

text \<open>\<open>new Vision()\<close>: the literal \<open>[]\<close> allocates a fresh empty array.\<close>

definition "constructor" :: "world \<Rightarrow> state" where
  "constructor w =
     \<lparr>arrays = (arrays w)(nextRef w := []),
      nextRef = Suc (nextRef w),
      console = console w,
      stats = \<lparr>requestCount = 0, errorCount = 0, totalLatency = 0,
               dbQueryCount = 0, dbErrorCount = 0, dbTotalLatency = 0,
               lastErrors = nextRef w\<rparr>\<rparr>"

definition visionRequest :: "number \<Rightarrow> state \<Rightarrow> state" where
  "visionRequest duration s =
     (let s1 = s\<lparr>stats := (stats s)\<lparr>requestCount := requestCount (stats s) + 1\<rparr>\<rparr>
      in s1\<lparr>stats := (stats s1)\<lparr>totalLatency := totalLatency (stats s1) + duration\<rparr>\<rparr>)"

text \<open>
  \<open>x ? x : ''\<close> for an optional string argument: \<open>undefined\<close> and the empty string are
  falsy, every other string is truthy.
\<close>

definition orEmpty :: "string option \<Rightarrow> string" where
  "orEmpty x = (case x of None \<Rightarrow> [] | Some v \<Rightarrow> (if v \<noteq> [] then v else []))"

text \<open>The object literal \<open>errLog\<close>; \<open>now\<close> is the value of \<open>new Date()\<close>.\<close>

definition errLog :: "Error \<Rightarrow> string option \<Rightarrow> string option \<Rightarrow> Date \<Rightarrow> ErrorLog" where
  "errLog err m p now =
     \<lparr>timestamp = now, method = orEmpty m, path = orEmpty p, error = message err\<rparr>"

definition visionError :: "Error \<Rightarrow> string option \<Rightarrow> string option \<Rightarrow> Date \<Rightarrow> state \<Rightarrow> state" where
  "visionError err m p now s =
     (let s1 = s\<lparr>stats := (stats s)\<lparr>errorCount := errorCount (stats s) + 1\<rparr>\<rparr>;
          s2 = (if array_length (Stats.lastErrors (stats s1)) s1 \<ge> 10
                then array_shift (Stats.lastErrors (stats s1)) s1 else s1)
      in array_push (Stats.lastErrors (stats s2)) (errLog err m p now) s2)"

definition visionDBQuery :: "number \<Rightarrow> state \<Rightarrow> state" where
  "visionDBQuery duration s =
     (let s1 = s\<lparr>stats := (stats s)\<lparr>dbQueryCount := dbQueryCount (stats s) + 1\<rparr>\<rparr>
      in s1\<lparr>stats := (stats s1)\<lparr>dbTotalLatency := dbTotalLatency (stats s1) + duration\<rparr>\<rparr>)"

definition visionDBError :: "state \<Rightarrow> state" where
  "visionDBError s = s\<lparr>stats := (stats s)\<lparr>dbErrorCount := dbErrorCount (stats s) + 1\<rparr>\<rparr>"

section \<open>The host metrics and the snapshot\<close>

text \<open>
  A settled promise: resolved with a value, or rejected with a reason. The reasons of
  the source are strings (\<open>reject(`Failed to get CPU usage: ...`)\<close>).
\<close>

datatype 'a promise = Resolved 'a | Rejected string

text \<open>
  The private methods \<open>getCPUUsage\<close>, \<open>getMemoryUsage\<close> and \<open>getNetworkStats\<close> run
  \<open>top\<close> and \<open>ifstat\<close> and read \<open>os.totalmem\<close> and \<open>os.freemem\<close>: what they settle to
  is decided by the host, and is an input of the model.
\<close>

record host =
  getCPUUsage :: "number promise"
  getMemoryUsage :: "number promise"
  getNetworkStats :: "number promise"

definition console_error :: "string \<Rightarrow> state \<Rightarrow> state" where
  "console_error line s = s\<lparr>console := console s @ [line]\<rparr>"

text \<open>
  \<open>p.catch(h)\<close>: a resolved promise passes through; a rejected one runs the handler on
  the reason and resolves with what the handler returns.
  \<open>await p\<close>: the value of a resolved promise; a rejected one throws its reason
  (\<open>Inl\<close>), which ends the \<open>async\<close> function with a rejection.
\<close>

definition promise_catch ::
  "'a promise \<Rightarrow> (string \<Rightarrow> state \<Rightarrow> 'a \<times> state) \<Rightarrow> state \<Rightarrow> 'a promise \<times> state" where
  "promise_catch p h s =
     (case p of
        Resolved v \<Rightarrow> (Resolved v, s)
      | Rejected e \<Rightarrow> (case h e s of (v, s') \<Rightarrow> (Resolved v, s')))"

definition await :: "'a promise \<Rightarrow> string + 'a" where
  "await p = (case p of Resolved v \<Rightarrow> Inr v | Rejected e \<Rightarrow> Inl e)"

text \<open>The object literal that \<open>getVisionStats\<close> returns, from the three awaited numbers.\<close>

definition response :: "number \<Rightarrow> number \<Rightarrow> number \<Rightarrow> state \<Rightarrow> MonitoringResponse" where
  "response cpu mem net s =
     \<lparr>requests =
        \<lparr>total = requestCount (stats s),
         errors = errorCount (stats s),
         successRate =
           (if requestCount (stats s) = 0 then 0
            else ((requestCount (stats s) - errorCount (stats s)) / requestCount (stats s)) * 100),
         avgLatencyMs =
           (if requestCount (stats s) = 0 then 0
            else totalLatency (stats s) / requestCount (stats s))\<rparr>,
      database =
        \<lparr>totalQueries = dbQueryCount (stats s),
         errors = dbErrorCount (stats s),
         avgLatencyMs =
           (if dbQueryCount (stats s) = 0 then 0
            else dbTotalLatency (stats s) / dbQueryCount (stats s))\<rparr>,
      system = \<lparr>cpuUsage = cpu, memoryUsage = mem, networkRecv = net\<rparr>,
      lastErrors = Some (Stats.lastErrors (stats s))\<rparr>"

text \<open>
  \<open>getVisionStats\<close>, run without another call of the class in between its awaits.
  The result is the outcome of the returned promise (\<open>Inl\<close>: rejected) and the state
  after the call.
\<close>

definition getVisionStats :: "host \<Rightarrow> state \<Rightarrow> (string + MonitoringResponse) \<times> state" where
  "getVisionStats h s0 =
     (case promise_catch (getCPUUsage h)
             (\<lambda>err s. (0, console_error (''Error getting CPU usage: '' @ err) s)) s0 of
        (p1, s1) \<Rightarrow>
     (case await p1 of Inl e \<Rightarrow> (Inl e, s1) | Inr cpu \<Rightarrow>
     (case promise_catch (getMemoryUsage h)
             (\<lambda>err s. (0, console_error (''Error getting memory usage: '' @ err) s)) s1 of
        (p2, s2) \<Rightarrow>
     (case await p2 of Inl e \<Rightarrow> (Inl e, s2) | Inr mem \<Rightarrow>
     (case promise_catch (getNetworkStats h)
             (\<lambda>err s. (0, console_error (''Error getting network stats: '' @ err) s)) s2 of
        (p3, s3) \<Rightarrow>
     (case await p3 of Inl e \<Rightarrow> (Inl e, s3) | Inr net \<Rightarrow>
        (Inr (response cpu mem net s3), s3)))))))"

section \<open>Sequences of calls\<close>

text \<open>One call of a public method, with its arguments and the inputs it reads.\<close>

datatype call =
    VisionRequest number
  | VisionError Error "string option" "string option" Date
  | VisionDBQuery number
  | VisionDBError
  | GetVisionStats host

fun perform :: "call \<Rightarrow> state \<Rightarrow> state" where
  "perform (VisionRequest d) s = visionRequest d s"
| "perform (VisionError err m p now) s = visionError err m p now s"
| "perform (VisionDBQuery d) s = visionDBQuery d s"
| "perform VisionDBError s = visionDBError s"
| "perform (GetVisionStats h) s = snd (getVisionStats h s)"

definition run :: "call list \<Rightarrow> state \<Rightarrow> state" where
  "run cs s = foldl (\<lambda>s c. perform c s) s cs"

text \<open>Whether a call is a call of \<open>visionError\<close>, the one method that writes to the log.\<close>

fun isVisionError :: "call \<Rightarrow> bool" where
  "isVisionError (VisionError err m p now) = True"
| "isVisionError c = False"

section \<open>Notions of the specification\<close>

text \<open>
  The value the specification gives a metric: the provider's value, or 0 when the
  query failed.
\<close>

definition orZero :: "number promise \<Rightarrow> number" where
  "orZero p = (case p of Resolved v \<Rightarrow> v | Rejected _ \<Rightarrow> 0)"

text \<open>The diagnostic lines of one snapshot: one for each failed query, in the order of the queries.\<close>

definition diagnostic :: "string \<Rightarrow> number promise \<Rightarrow> string list" where
  "diagnostic prefix p = (case p of Resolved _ \<Rightarrow> [] | Rejected e \<Rightarrow> [prefix @ e])"

definition diagnostics :: "host \<Rightarrow> string list" where
  "diagnostics h =
     diagnostic ''Error getting CPU usage: '' (getCPUUsage h) @
     diagnostic ''Error getting memory usage: '' (getMemoryUsage h) @
     diagnostic ''Error getting network stats: '' (getNetworkStats h)"

text \<open>The \<open>n\<close> most recent entries of a chronological list, oldest first.\<close>

definition recentCalls :: "nat \<Rightarrow> 'a list \<Rightarrow> 'a list" where
  "recentCalls n xs = drop (length xs - n) xs"

text \<open>A sequence of \<open>visionError\<close> calls, each with its arguments and its clock reading.\<close>

type_synonym errorCall = "Error \<times> string option \<times> string option \<times> Date"

definition errorCalls :: "errorCall list \<Rightarrow> call list" where
  "errorCalls cs = map (\<lambda>(err, m, p, now). VisionError err m p now) cs"

subsection \<open>Concrete inputs\<close>

definition freshState :: state where
  "freshState = constructor emptyWorld"

definition quietHost :: host where
  "quietHost = \<lparr>getCPUUsage = Resolved 12, getMemoryUsage = Resolved 40,
                getNetworkStats = Resolved 3\<rparr>"

definition forged :: ErrorLog where
  "forged = \<lparr>timestamp = 0, method = ''GET'', path = ''/forged'', error = ''not recorded''\<rparr>"

text \<open>
  Ten requests with a total latency of 1000, two request errors, and four database
  queries with a total latency of 200.
\<close>

definition exampleCalls :: "call list" where
  "exampleCalls =
     map VisionRequest [120, 80, 95, 110, 60, 75, 130, 90, 100, 140] @
     [VisionError \<lparr>message = ''timeout''\<rparr> (Some ''GET'') (Some ''/users'') 1000,
      VisionError \<lparr>message = ''boom''\<rparr> None None 2000] @
     map VisionDBQuery [20, 30, 50, 100]"

definition exampleState :: state where
  "exampleState = run exampleCalls freshState"

section \<open>Basic facts about the operations\<close>

lemma response_console [simp]: "response c m n (s\<lparr>console := k\<rparr>) = response c m n s"
  by (simp add: response_def)

lemma getVisionStats_eq:
  "getVisionStats h s =
     (Inr (response (orZero (getCPUUsage h)) (orZero (getMemoryUsage h))
             (orZero (getNetworkStats h)) s),
      s\<lparr>console := console s @ diagnostics h\<rparr>)"
  by (simp add: getVisionStats_def promise_catch_def await_def console_error_def orZero_def
      diagnostics_def diagnostic_def split: promise.splits)

lemma stats_visionRequest:
  "stats (visionRequest d s) =
     (stats s)\<lparr>requestCount := requestCount (stats s) + 1,
               totalLatency := totalLatency (stats s) + d\<rparr>"
  by (simp add: visionRequest_def Let_def)

lemma world_visionRequest:
  "arrays (visionRequest d s) = arrays s" "console (visionRequest d s) = console s"
  "nextRef (visionRequest d s) = nextRef s"
  by (simp_all add: visionRequest_def Let_def)

lemma stats_visionDBQuery:
  "stats (visionDBQuery d s) =
     (stats s)\<lparr>dbQueryCount := dbQueryCount (stats s) + 1,
               dbTotalLatency := dbTotalLatency (stats s) + d\<rparr>"
  by (simp add: visionDBQuery_def Let_def)

lemma world_visionDBQuery:
  "arrays (visionDBQuery d s) = arrays s" "console (visionDBQuery d s) = console s"
  "nextRef (visionDBQuery d s) = nextRef s"
  by (simp_all add: visionDBQuery_def Let_def)

lemma stats_visionDBError:
  "stats (visionDBError s) = (stats s)\<lparr>dbErrorCount := dbErrorCount (stats s) + 1\<rparr>"
  by (simp add: visionDBError_def)

lemma world_visionDBError:
  "arrays (visionDBError s) = arrays s" "console (visionDBError s) = console s"
  "nextRef (visionDBError s) = nextRef s"
  by (simp_all add: visionDBError_def)

lemma stats_visionError:
  "stats (visionError err m p now s) = (stats s)\<lparr>errorCount := errorCount (stats s) + 1\<rparr>"
  by (simp add: visionError_def Let_def array_push_def array_shift_def)

lemma errorLog_visionError:
  "errorLog (visionError err m p now s) =
     (if length (errorLog s) \<ge> 10 then tl (errorLog s) else errorLog s) @ [errLog err m p now]"
  by (simp add: visionError_def Let_def array_push_def array_shift_def array_length_def
      errorLog_def split: list.splits)

lemma stats_getVisionStats: "stats (snd (getVisionStats h s)) = stats s"
  by (simp add: getVisionStats_eq)

lemma arrays_getVisionStats: "arrays (snd (getVisionStats h s)) = arrays s"
  by (simp add: getVisionStats_eq)

lemma run_Nil [simp]: "run [] s = s"
  by (simp add: run_def)

lemma run_snoc [simp]: "run (cs @ [c]) s = perform c (run cs s)"
  by (simp add: run_def)

lemma run_Cons [simp]: "run (c # cs) s = run cs (perform c s)"
  by (simp add: run_def)

lemma errorLog_perform_le:
  "length (errorLog s) \<le> 10 \<Longrightarrow> length (errorLog (perform c s)) \<le> 10"
  by (cases c)
    (simp_all add: errorLog_visionError,
     simp_all add: errorLog_def stats_visionRequest world_visionRequest
       stats_visionDBQuery world_visionDBQuery stats_visionDBError world_visionDBError
       stats_getVisionStats arrays_getVisionStats)

lemma errorLog_constructor: "errorLog (constructor w) = []"
  by (simp add: errorLog_def constructor_def)

lemma errorLog_run_le:
  "length (errorLog s) \<le> 10 \<Longrightarrow> length (errorLog (run cs s)) \<le> 10"
  by (induction cs rule: rev_induct) (simp_all add: errorLog_perform_le)

lemma recent_step:
  assumes "xs = drop (length full - 10) full"
  shows "(if length xs \<ge> 10 then tl xs else xs) @ [x] =
         drop (length (full @ [x]) - 10) (full @ [x])"
proof (cases "length full \<ge> 10")
  case True
  then have "length xs = 10" using assms by simp
  moreover have "tl xs = drop (Suc (length full - 10)) full"
    using assms by (simp add: drop_Suc tl_drop)
  moreover have "Suc (length full - 10) = length full + 1 - 10" using True by simp
  ultimately show ?thesis using True by simp
next
  case False
  then show ?thesis using assms by simp
qed

lemma run_errorCalls:
  "errorCount (stats (run (errorCalls cs) s)) = errorCount (stats s) + of_nat (length cs) \<and>
   (errorLog s = [] \<longrightarrow>
    errorLog (run (errorCalls cs) s) =
      drop (length cs - 10) (map (\<lambda>(err, m, p, now). errLog err m p now) cs))"
proof (induction cs rule: rev_induct)
  case Nil
  then show ?case by (simp add: errorCalls_def)
next
  case (snoc c cs)
  obtain err m p now where c: "c = (err, m, p, now)" by (cases c) auto
  have run: "run (errorCalls (cs @ [c])) s = visionError err m p now (run (errorCalls cs) s)"
    by (simp add: errorCalls_def c)
  show ?case
  proof (intro conjI impI)
    show "errorCount (stats (run (errorCalls (cs @ [c])) s)) =
          errorCount (stats s) + of_nat (length (cs @ [c]))"
      using snoc.IH by (simp add: run stats_visionError)
  next
    assume e: "errorLog s = []"
    let ?full = "map (\<lambda>(err, m, p, now). errLog err m p now) cs"
    have "errorLog (run (errorCalls cs) s) = drop (length ?full - 10) ?full"
      using snoc.IH e by simp
    from recent_step [OF this, of "errLog err m p now"]
    have "(if 10 \<le> length (errorLog (run (errorCalls cs) s))
           then tl (errorLog (run (errorCalls cs) s))
           else errorLog (run (errorCalls cs) s)) @ [errLog err m p now] =
          drop (length (cs @ [c]) - 10)
            (map (\<lambda>(err, m, p, now). errLog err m p now) (cs @ [c]))"
      by (simp add: c)
    then show "errorLog (run (errorCalls (cs @ [c])) s) =
          drop (length (cs @ [c]) - 10)
            (map (\<lambda>(err, m, p, now). errLog err m p now) (cs @ [c]))"
      by (simp only: run errorLog_visionError)
  qed
qed

lemma run_requests:
  "stats (run (map VisionRequest ds) s) =
     (stats s)\<lparr>requestCount := requestCount (stats s) + of_nat (length ds),
               totalLatency := totalLatency (stats s) + sum_list ds\<rparr>"
  by (induction ds rule: rev_induct) (simp_all add: stats_visionRequest algebra_simps)

lemma run_append: "run (xs @ ys) s = run ys (run xs s)"
  by (simp add: run_def)

lemma run_dbQueries:
  "stats (run (map VisionDBQuery ds) s) =
     (stats s)\<lparr>dbQueryCount := dbQueryCount (stats s) + of_nat (length ds),
               dbTotalLatency := dbTotalLatency (stats s) + sum_list ds\<rparr>"
  by (induction ds rule: rev_induct) (simp_all add: stats_visionDBQuery algebra_simps)

lemma run_two_errors:
  "stats (run [VisionError e1 m1 p1 n1, VisionError e2 m2 p2 n2] s) =
     (stats s)\<lparr>errorCount := errorCount (stats s) + 2\<rparr>"
  by (simp add: stats_visionError)

lemma stats_exampleState:
  "stats exampleState =
     \<lparr>requestCount = 10, errorCount = 2, totalLatency = 1000,
      dbQueryCount = 4, dbErrorCount = 0, dbTotalLatency = 200, lastErrors = 0\<rparr>"
proof -
  define s1 where "s1 = run (map VisionRequest [120, 80, 95, 110, 60, 75, 130, 90, 100, 140]) freshState"
  define s2 where "s2 = run [VisionError \<lparr>message = ''timeout''\<rparr> (Some ''GET'') (Some ''/users'') 1000,
      VisionError \<lparr>message = ''boom''\<rparr> None None 2000] s1"
  have fresh: "stats freshState =
     \<lparr>requestCount = 0, errorCount = 0, totalLatency = 0,
      dbQueryCount = 0, dbErrorCount = 0, dbTotalLatency = 0, lastErrors = 0\<rparr>"
    by (simp add: freshState_def constructor_def emptyWorld_def)
  have 1: "stats s1 =
     \<lparr>requestCount = 10, errorCount = 0, totalLatency = 1000,
      dbQueryCount = 0, dbErrorCount = 0, dbTotalLatency = 0, lastErrors = 0\<rparr>"
    unfolding s1_def run_requests fresh by simp
  have 2: "stats s2 =
     \<lparr>requestCount = 10, errorCount = 2, totalLatency = 1000,
      dbQueryCount = 0, dbErrorCount = 0, dbTotalLatency = 0, lastErrors = 0\<rparr>"
    unfolding s2_def run_two_errors 1 by simp
  have 3: "stats exampleState = stats (run (map VisionDBQuery [20, 30, 50, 100]) s2)"
    unfolding exampleState_def exampleCalls_def run_append s2_def s1_def ..
  show ?thesis
    unfolding 3 run_dbQueries 2 by simp
qed

lemma errorLog_freshState: "errorLog freshState = []"
  by (simp add: freshState_def errorLog_constructor)

lemma lastErrors_perform:
  "Stats.lastErrors (stats (perform c s)) = Stats.lastErrors (stats s)"
  by (cases c)
    (simp_all add: stats_visionRequest stats_visionError stats_visionDBQuery
      stats_visionDBError stats_getVisionStats)

lemma lastErrors_run:
  "Stats.lastErrors (stats (run cs s)) = Stats.lastErrors (stats s)"
  by (induction cs rule: rev_induct) (simp_all add: lastErrors_perform)

lemma arrays_perform_other:
  "\<not> isVisionError c \<Longrightarrow> arrays (perform c s) = arrays s"
  by (cases c)
    (simp_all add: world_visionRequest world_visionDBQuery world_visionDBError
      arrays_getVisionStats)

lemma arrays_run_other:
  "arrays (run (filter (\<lambda>c. \<not> isVisionError c) cs) s) = arrays s"
  by (induction cs rule: rev_induct) (simp_all add: arrays_perform_other)

lemma errorLog_run_other:
  "errorLog (run (filter (\<lambda>c. \<not> isVisionError c) cs) s) = errorLog s"
  by (simp add: errorLog_def arrays_run_other lastErrors_run)

section \<open>Properties of the aggregator\<close>

subsection \<open>C1\<close>

text \<open>
  C1, as the specification states it: the \<open>lastErrors\<close> of the response is a copy, so a
  mutation of the returned sequence leaves the aggregator's own log unchanged.
  The source returns \<open>this.stats.lastErrors\<close> itself. On a fresh aggregator the response
  carries reference 0, the log is empty, and one \<open>push\<close> through the returned reference
  puts the pushed entry into the aggregator's log and into the next snapshot.
\<close>

theorem returned_lastErrors_copy_counterexample:
  "fst (getVisionStats quietHost freshState) = Inr (response 12 40 3 freshState) \<and>
   MonitoringResponse.lastErrors (response 12 40 3 freshState) = Some 0 \<and>
   errorLog (snd (getVisionStats quietHost freshState)) = [] \<and>
   errorLog (array_push 0 forged (snd (getVisionStats quietHost freshState))) = [forged] \<and>
   errorLog (array_push 0 forged (snd (getVisionStats quietHost freshState))) \<noteq>
     errorLog (snd (getVisionStats quietHost freshState)) \<and>
   arrays (snd (getVisionStats quietHost
       (array_push 0 forged (snd (getVisionStats quietHost freshState))))) 0 = [forged]"
  by (simp add: getVisionStats_eq quietHost_def orZero_def freshState_def constructor_def
      emptyWorld_def response_def errorLog_def array_push_def)

text \<open>
  C1, amended: the \<open>lastErrors\<close> of the response is the reference held in
  \<open>this.stats.lastErrors\<close>, not a copy. When the call returns, the array behind it holds
  the aggregator's log, and an entry pushed through the returned reference is appended
  to the aggregator's log. After any further calls a snapshot returns the same
  reference, and the array behind it holds the aggregator's log as it then is. The
  pushed entry is in the snapshot taken directly afterwards, and in every snapshot
  taken after further calls none of which is a call of \<open>visionError\<close>.
\<close>

theorem returned_lastErrors_is_live:
  "\<exists>r. fst (getVisionStats h s) = Inr r \<and>
       MonitoringResponse.lastErrors r = Some (Stats.lastErrors (stats s)) \<and>
       arrays (snd (getVisionStats h s)) (Stats.lastErrors (stats s)) = errorLog s \<and>
       errorLog (array_push (Stats.lastErrors (stats s)) x (snd (getVisionStats h s))) =
         errorLog s @ [x] \<and>
       (\<exists>r'. fst (getVisionStats h'
                (array_push (Stats.lastErrors (stats s)) x (snd (getVisionStats h s)))) = Inr r' \<and>
             MonitoringResponse.lastErrors r' = MonitoringResponse.lastErrors r \<and>
             arrays (snd (getVisionStats h'
                (array_push (Stats.lastErrors (stats s)) x (snd (getVisionStats h s)))))
               (Stats.lastErrors (stats s)) = errorLog s @ [x]) \<and>
       (\<exists>r'. fst (getVisionStats h'
                (run cs (array_push (Stats.lastErrors (stats s)) x (snd (getVisionStats h s))))) =
               Inr r' \<and>
             MonitoringResponse.lastErrors r' = MonitoringResponse.lastErrors r \<and>
             arrays (snd (getVisionStats h'
                (run cs (array_push (Stats.lastErrors (stats s)) x (snd (getVisionStats h s))))))
               (Stats.lastErrors (stats s)) =
             errorLog (run cs (array_push (Stats.lastErrors (stats s)) x
               (snd (getVisionStats h s))))) \<and>
       (\<exists>r'. fst (getVisionStats h'
                (run (filter (\<lambda>c. \<not> isVisionError c) cs)
                  (array_push (Stats.lastErrors (stats s)) x (snd (getVisionStats h s))))) =
               Inr r' \<and>
             MonitoringResponse.lastErrors r' = MonitoringResponse.lastErrors r \<and>
             arrays (snd (getVisionStats h'
                (run (filter (\<lambda>c. \<not> isVisionError c) cs)
                  (array_push (Stats.lastErrors (stats s)) x (snd (getVisionStats h s))))))
               (Stats.lastErrors (stats s)) = errorLog s @ [x])"
proof -
  define s2 where "s2 = array_push (Stats.lastErrors (stats s)) x (snd (getVisionStats h s))"
  have ref2: "Stats.lastErrors (stats s2) = Stats.lastErrors (stats s)"
    by (simp add: s2_def getVisionStats_eq array_push_def)
  have log2: "errorLog s2 = errorLog s @ [x]"
    by (simp add: s2_def getVisionStats_eq errorLog_def array_push_def)
  have ref_later: "Stats.lastErrors (stats (run ds s2)) = Stats.lastErrors (stats s)" for ds
    by (simp add: lastErrors_run ref2)
  have later: "arrays (snd (getVisionStats h' (run ds s2))) (Stats.lastErrors (stats s)) =
      errorLog (run ds s2)" for ds
    by (simp add: arrays_getVisionStats errorLog_def ref_later)
  have other: "errorLog (run (filter (\<lambda>c. \<not> isVisionError c) cs) s2) = errorLog s @ [x]"
    by (simp add: errorLog_run_other log2)
  have next_one: "arrays (snd (getVisionStats h' s2)) (Stats.lastErrors (stats s)) =
      errorLog s @ [x]"
    using later [of "[]"] log2 by simp
  have quiet: "arrays (snd (getVisionStats h' (run (filter (\<lambda>c. \<not> isVisionError c) cs) s2)))
      (Stats.lastErrors (stats s)) = errorLog s @ [x]"
    using later [of "filter (\<lambda>c. \<not> isVisionError c) cs"] other by simp
  have resp: "fst (getVisionStats g t) =
      Inr (response (orZero (getCPUUsage g)) (orZero (getMemoryUsage g))
             (orZero (getNetworkStats g)) t)" for g t
    by (simp add: getVisionStats_eq)
  have field: "MonitoringResponse.lastErrors (response a b c t) = Some (Stats.lastErrors (stats t))"
    for a b c t
    by (simp add: response_def)
  have now: "arrays (snd (getVisionStats h s)) (Stats.lastErrors (stats s)) = errorLog s"
    by (simp add: arrays_getVisionStats errorLog_def)
  show ?thesis
    unfolding s2_def [symmetric]
    using now log2 next_one later [of cs] quiet
    by (simp add: resp field ref2 ref_later)
qed

subsection \<open>C2\<close>

text \<open>
  C2: after \<open>k\<close> calls of \<open>visionError\<close> on a freshly constructed aggregator,
  \<open>errorCount\<close> is \<open>k\<close>, the log has \<open>min k 10\<close> entries, and they are the records of
  the most recent calls, oldest first; each record carries the clock reading, the given
  method and path (the empty string when not given) and the message of the error.
\<close>

theorem visionError_sequence:
  "errorCount (stats (run (errorCalls cs) (constructor w))) = of_nat (length cs) \<and>
   length (errorLog (run (errorCalls cs) (constructor w))) = min (length cs) 10 \<and>
   errorLog (run (errorCalls cs) (constructor w)) =
     recentCalls 10
       (map (\<lambda>(err, m, p, now).
              \<lparr>timestamp = now,
               method = (case m of None \<Rightarrow> [] | Some v \<Rightarrow> v),
               path = (case p of None \<Rightarrow> [] | Some v \<Rightarrow> v),
               error = message err\<rparr>) cs)"
proof -
  have mk: "(\<lambda>(err, m, p, now). errLog err m p now) =
        (\<lambda>(err, m, p, now).
              \<lparr>timestamp = now,
               method = (case m of None \<Rightarrow> [] | Some v \<Rightarrow> v),
               path = (case p of None \<Rightarrow> [] | Some v \<Rightarrow> v),
               error = message err\<rparr>)"
    by (auto simp: fun_eq_iff errLog_def orEmpty_def split: option.splits)
  have c0: "errorCount (stats (constructor w)) = 0" by (simp add: constructor_def)
  have log: "errorLog (run (errorCalls cs) (constructor w)) =
      drop (length cs - 10) (map (\<lambda>(err, m, p, now). errLog err m p now) cs)"
    using run_errorCalls [of cs "constructor w"] by (simp add: errorLog_constructor)
  have "errorCount (stats (run (errorCalls cs) (constructor w))) = of_nat (length cs)"
    using run_errorCalls [of cs "constructor w"] c0 by simp
  moreover have "length (errorLog (run (errorCalls cs) (constructor w))) = min (length cs) 10"
    by (simp add: log)
  ultimately show ?thesis
    using log by (simp add: recentCalls_def mk)
qed

subsection \<open>C3\<close>

text \<open>
  C3: the log of a freshly constructed aggregator has at most 10 entries, each of the
  five public methods preserves that, and so it holds after every sequence of calls.
\<close>

theorem lastErrors_bounded:
  "length (errorLog (constructor w)) \<le> 10 \<and>
   (length (errorLog s) \<le> 10 \<longrightarrow>
      length (errorLog (visionRequest d s)) \<le> 10 \<and>
      length (errorLog (visionError err m p now s)) \<le> 10 \<and>
      length (errorLog (visionDBQuery d s)) \<le> 10 \<and>
      length (errorLog (visionDBError s)) \<le> 10 \<and>
      length (errorLog (snd (getVisionStats h s))) \<le> 10) \<and>
   length (errorLog (run cs (constructor w))) \<le> 10"
proof -
  have init: "length (errorLog (constructor w)) \<le> 10"
    by (simp add: errorLog_constructor)
  have step: "length (errorLog (perform c s)) \<le> 10" if "length (errorLog s) \<le> 10" for c
    using that by (rule errorLog_perform_le)
  have "length (errorLog (run cs (constructor w))) \<le> 10"
    using init by (rule errorLog_run_le)
  with init step [of "VisionRequest d"] step [of "VisionError err m p now"]
    step [of "VisionDBQuery d"] step [of VisionDBError] step [of "GetVisionStats h"]
  show ?thesis by simp
qed

theorem lastErrors_bounded_witness:
  "length (errorLog exampleState) \<le> 10 \<and>
   length (errorLog (visionError \<lparr>message = ''late''\<rparr> None (Some ''/x'') 3000 exampleState)) \<le> 10"
proof -
  have h: "length (errorLog exampleState) \<le> 10"
    unfolding exampleState_def using errorLog_run_le [of freshState exampleCalls]
    by (simp add: errorLog_freshState)
  from lastErrors_bounded [of emptyWorld exampleState 0 "\<lparr>message = ''late''\<rparr>" None
      "Some ''/x''" 3000 quietHost "[]"] h
  show ?thesis by simp
qed

subsection \<open>C4\<close>

text \<open>
  C4: the \<open>successRate\<close> of a snapshot is 0 when \<open>requestCount\<close> is 0, and
  \<open>(requestCount - errorCount) / requestCount * 100\<close> otherwise; with 10 requests and
  2 errors it is 80.
\<close>

theorem successRate_formula:
  "(\<exists>r. fst (getVisionStats h s) = Inr r \<and>
        successRate (requests r) =
          (if requestCount (stats s) = 0 then 0
           else (requestCount (stats s) - errorCount (stats s)) / requestCount (stats s) * 100)) \<and>
   (requestCount (stats s) = 10 \<and> errorCount (stats s) = 2 \<longrightarrow>
      (\<exists>r. fst (getVisionStats h s) = Inr r \<and> successRate (requests r) = 80))"
  by (simp add: getVisionStats_eq response_def)

theorem successRate_formula_witness:
  "requestCount (stats exampleState) = 10 \<and> errorCount (stats exampleState) = 2 \<and>
   (\<exists>r. fst (getVisionStats quietHost exampleState) = Inr r \<and> successRate (requests r) = 80)"
  using successRate_formula [of quietHost exampleState]
  by (simp add: stats_exampleState)

subsection \<open>C5\<close>

text \<open>
  C5: \<open>getVisionStats\<close> never rejects. Whatever the three queries settle to, it
  resolves with a response; each system field is the provider's value, or 0 when its
  query failed; one diagnostic line is written for each failed query; the fields
  computed from the counters are the same for every host. With exactly one failed
  query that field is 0 and the other two are the provider's values.
\<close>

theorem getVisionStats_never_rejects:
  "(\<exists>r. getVisionStats h s = (Inr r, s\<lparr>console := console s @ diagnostics h\<rparr>) \<and>
        cpuUsage (system r) = orZero (getCPUUsage h) \<and>
        memoryUsage (system r) = orZero (getMemoryUsage h) \<and>
        networkRecv (system r) = orZero (getNetworkStats h) \<and>
        (\<exists>r'. fst (getVisionStats h' s) = Inr r' \<and>
              requests r' = requests r \<and> database r' = database r \<and>
              MonitoringResponse.lastErrors r' = MonitoringResponse.lastErrors r)) \<and>
   (\<exists>r. getVisionStats
          \<lparr>getCPUUsage = Rejected e, getMemoryUsage = Resolved m, getNetworkStats = Resolved n\<rparr> s =
          (Inr r, s\<lparr>console := console s @ [''Error getting CPU usage: '' @ e]\<rparr>) \<and>
        system r = \<lparr>cpuUsage = 0, memoryUsage = m, networkRecv = n\<rparr>) \<and>
   (\<exists>r. getVisionStats
          \<lparr>getCPUUsage = Resolved c, getMemoryUsage = Rejected e, getNetworkStats = Resolved n\<rparr> s =
          (Inr r, s\<lparr>console := console s @ [''Error getting memory usage: '' @ e]\<rparr>) \<and>
        system r = \<lparr>cpuUsage = c, memoryUsage = 0, networkRecv = n\<rparr>) \<and>
   (\<exists>r. getVisionStats
          \<lparr>getCPUUsage = Resolved c, getMemoryUsage = Resolved m, getNetworkStats = Rejected e\<rparr> s =
          (Inr r, s\<lparr>console := console s @ [''Error getting network stats: '' @ e]\<rparr>) \<and>
        system r = \<lparr>cpuUsage = c, memoryUsage = m, networkRecv = 0\<rparr>)"
  by (simp add: getVisionStats_eq response_def orZero_def diagnostics_def diagnostic_def)

subsection \<open>C6\<close>

text \<open>
  C6: after \<open>N\<close> calls of \<open>visionRequest\<close> with durations \<open>ds\<close> on a freshly constructed
  aggregator, \<open>requestCount\<close> is \<open>N\<close> and \<open>totalLatency\<close> is the sum of \<open>ds\<close>; one call
  adds 1 to \<open>requestCount\<close> and its duration to \<open>totalLatency\<close>.
\<close>

theorem visionRequest_sequence:
  "requestCount (stats (run (map VisionRequest ds) (constructor w))) = of_nat (length ds) \<and>
   totalLatency (stats (run (map VisionRequest ds) (constructor w))) = sum_list ds \<and>
   requestCount (stats (visionRequest d s)) = requestCount (stats s) + 1 \<and>
   totalLatency (stats (visionRequest d s)) = totalLatency (stats s) + d"
  by (simp add: run_requests stats_visionRequest constructor_def)

subsection \<open>C7\<close>

text \<open>
  C7: the \<open>avgLatencyMs\<close> of the requests group is 0 when \<open>requestCount\<close> is 0 and
  \<open>totalLatency / requestCount\<close> otherwise; that of the database group is 0 when
  \<open>dbQueryCount\<close> is 0 and \<open>dbTotalLatency / dbQueryCount\<close> otherwise; with 4 queries
  and a total latency of 200 the latter is 50.
\<close>

theorem avgLatencyMs_formula:
  "(\<exists>r. fst (getVisionStats h s) = Inr r \<and>
        RequestsGroup.avgLatencyMs (requests r) =
          (if requestCount (stats s) = 0 then 0
           else totalLatency (stats s) / requestCount (stats s)) \<and>
        DatabaseGroup.avgLatencyMs (database r) =
          (if dbQueryCount (stats s) = 0 then 0
           else dbTotalLatency (stats s) / dbQueryCount (stats s))) \<and>
   (dbQueryCount (stats s) = 4 \<and> dbTotalLatency (stats s) = 200 \<longrightarrow>
      (\<exists>r. fst (getVisionStats h s) = Inr r \<and>
           DatabaseGroup.avgLatencyMs (database r) = 50))"
  by (simp add: getVisionStats_eq response_def)

theorem avgLatencyMs_formula_witness:
  "dbQueryCount (stats exampleState) = 4 \<and> dbTotalLatency (stats exampleState) = 200 \<and>
   (\<exists>r. fst (getVisionStats quietHost exampleState) = Inr r \<and>
        DatabaseGroup.avgLatencyMs (database r) = 50)"
  using avgLatencyMs_formula [of quietHost exampleState]
  by (simp add: stats_exampleState)

subsection \<open>C8\<close>

text \<open>
  C8: \<open>visionDBError\<close> adds 1 to \<open>dbErrorCount\<close> and changes nothing else: the other
  counters, the reference to the log, the arrays of the store (so the log gets no
  entry), the allocator and the console are as before.
\<close>

theorem visionDBError_frame:
  "dbErrorCount (stats (visionDBError s)) = dbErrorCount (stats s) + 1 \<and>
   requestCount (stats (visionDBError s)) = requestCount (stats s) \<and>
   errorCount (stats (visionDBError s)) = errorCount (stats s) \<and>
   totalLatency (stats (visionDBError s)) = totalLatency (stats s) \<and>
   dbQueryCount (stats (visionDBError s)) = dbQueryCount (stats s) \<and>
   dbTotalLatency (stats (visionDBError s)) = dbTotalLatency (stats s) \<and>
   Stats.lastErrors (stats (visionDBError s)) = Stats.lastErrors (stats s) \<and>
   errorLog (visionDBError s) = errorLog s \<and>
   arrays (visionDBError s) = arrays s \<and>
   nextRef (visionDBError s) = nextRef s \<and>
   console (visionDBError s) = console s"
  by (simp add: visionDBError_def errorLog_def)

subsection \<open>C9\<close>

text \<open>
  C9: \<open>getVisionStats\<close> only reads the aggregator: after the call \<open>this.stats\<close> holds
  the same seven values, and the store of arrays, hence the log, is as before.
\<close>

theorem getVisionStats_reads_only:
  "stats (snd (getVisionStats h s)) = stats s \<and>
   arrays (snd (getVisionStats h s)) = arrays s \<and>
   errorLog (snd (getVisionStats h s)) = errorLog s \<and>
   nextRef (snd (getVisionStats h s)) = nextRef s"
  by (simp add: getVisionStats_eq errorLog_def)

subsection \<open>C10\<close>

text \<open>
  C10: the response always has the \<open>lastErrors\<close> field, and the array it refers to
  holds the aggregator's log when the call returns; on a freshly constructed
  aggregator the field is present and the array is empty.
\<close>

theorem response_lastErrors_present:
  "(\<exists>r a. fst (getVisionStats h s) = Inr r \<and>
          MonitoringResponse.lastErrors r = Some a \<and>
          arrays (snd (getVisionStats h s)) a = errorLog s) \<and>
   (\<exists>r a. fst (getVisionStats h (constructor w)) = Inr r \<and>
          MonitoringResponse.lastErrors r = Some a \<and>
          arrays (snd (getVisionStats h (constructor w))) a = [])"
  by (simp add: getVisionStats_eq response_def errorLog_def constructor_def)

end
